theory Spec2Isabelle
  imports Main
begin

section \<open>Exceptions and dictionaries\<close>

text \<open>
  The exceptions the serializers and the webhook dispatcher raise or let through.
  A \<open>ValidationError\<close> carries its detail: a plain message, or a dictionary from a
  field name to its list of messages. An exception raised by a library call stands for
  the class an \<open>except\<close> clause of the source would match it with.
\<close>

datatype detail = Msg string | Fields "(string \<times> string list) list"

datatype error =
    ValidationError detail
  | ValueError
  | TypeError
  | OverflowError
  | KeyError string
  | DoesNotExist
  | MultipleObjectsReturned
  | DecodeError
  | ExpiredSignatureError
  | InvalidTokenError
  | Exception string

text \<open>
  A Python dictionary with string keys, in insertion order. \<open>d[k]\<close> raises
  \<open>KeyError\<close> on a missing key.
\<close>

type_synonym 'v pydict = "(string \<times> 'v) list"

definition getitem :: "'v pydict \<Rightarrow> string \<Rightarrow> error + 'v" where
  "getitem d k = (case map_of d k of None \<Rightarrow> Inl (KeyError k) | Some v \<Rightarrow> Inr v)"

section \<open>PermissionsField (workflow/serializers.py)\<close>

definition permission_keys :: "string list" where
  "permission_keys = [''create'', ''read'', ''update'', ''delete'']"

text \<open>The binary digits of a natural number, most significant first (\<open>0\<close> is \<open>''0''\<close>).\<close>

fun bin_digits :: "nat \<Rightarrow> string" where
  "bin_digits n =
     (if n < 2 then [if n = 0 then CHR ''0'' else CHR ''1'']
      else bin_digits (n div 2) @ [if n mod 2 = 0 then CHR ''0'' else CHR ''1''])"

declare bin_digits.simps [simp del]

text \<open>
  \<open>'{0:04b}'.format(v)\<close>: the sign, then the binary digits of the magnitude, padded
  with zeros after the sign to a total width of four.
\<close>

definition format_04b :: "int \<Rightarrow> string" where
  "format_04b v =
     (let sgn = (if v < 0 then ''-'' else '''');
          ds = bin_digits (nat \<bar>v\<bar>)
      in sgn @ replicate (4 - length sgn - length ds) CHR ''0'' @ ds)"

text \<open>\<open>int(c)\<close> on a one-character string: a decimal digit, or \<open>ValueError\<close>.\<close>

definition int_of_char :: "char \<Rightarrow> error + int" where
  "int_of_char c =
     (if c \<in> set ''0123456789'' then Inr (int (of_char c) - 48) else Inl ValueError)"

text \<open>
  \<open>dict(zip(keys, map(bool, map(int, permissions))))\<close>. Both maps are lazy and \<open>zip\<close>
  asks the keys first, so a character is converted only while a key is left for it.
\<close>

fun zip_bools :: "string list \<Rightarrow> string \<Rightarrow> error + bool pydict" where
  "zip_bools [] cs = Inr []"
| "zip_bools (k # ks) [] = Inr []"
| "zip_bools (k # ks) (c # cs) =
     (case int_of_char c of
        Inl e \<Rightarrow> Inl e
      | Inr i \<Rightarrow>
          (case zip_bools ks cs of
             Inl e \<Rightarrow> Inl e
           | Inr d \<Rightarrow> Inr ((k, i \<noteq> 0) # d)))"

definition to_representation :: "int \<Rightarrow> error + bool pydict" where
  "to_representation v =
     (let permissions = format_04b (if v < 16 then v else 15)
      in zip_bools permission_keys permissions)"

text \<open>\<open>str(int(b))\<close> for a boolean.\<close>

definition str_int_bool :: "bool \<Rightarrow> string" where
  "str_int_bool b = (if b then ''1'' else ''0'')"

text \<open>\<open>''.join([str(int(data[key])) for key in keys])\<close>.\<close>

fun join_bits :: "bool pydict \<Rightarrow> string list \<Rightarrow> error + string" where
  "join_bits data [] = Inr []"
| "join_bits data (k # ks) =
     (case getitem data k of
        Inl e \<Rightarrow> Inl e
      | Inr b \<Rightarrow>
          (case join_bits data ks of
             Inl e \<Rightarrow> Inl e
           | Inr s \<Rightarrow> Inr (str_int_bool b @ s)))"

text \<open>
  \<open>int(s, 2)\<close> on a string of binary digits. The empty string and a string with
  another character are a \<open>ValueError\<close>; the signs, prefix, underscores and blanks
  that Python accepts besides never occur in a string \<open>join_bits\<close> builds.
\<close>

fun int_base2_acc :: "int \<Rightarrow> string \<Rightarrow> error + int" where
  "int_base2_acc acc [] = Inr acc"
| "int_base2_acc acc (c # cs) =
     (if c = CHR ''0'' then int_base2_acc (2 * acc) cs
      else if c = CHR ''1'' then int_base2_acc (2 * acc + 1) cs
      else Inl ValueError)"

definition int_base2 :: "string \<Rightarrow> error + int" where
  "int_base2 s = (if s = [] then Inl ValueError else int_base2_acc 0 s)"

text \<open>
  \<open>to_internal_value\<close>. The first line calls the inherited \<open>DictField\<close> validation,
  which is the framework's and a parameter here: it rejects the raw data or returns the
  dictionary of validated booleans.
\<close>

definition to_internal_value :: "('raw \<Rightarrow> error + bool pydict) \<Rightarrow> 'raw \<Rightarrow> error + int" where
  "to_internal_value super_to_internal_value raw =
     (case super_to_internal_value raw of
        Inl e \<Rightarrow> Inl e
      | Inr data \<Rightarrow>
          if \<not> (set (map fst data) = set permission_keys)
          then Inl (ValidationError (Msg ''Permissions field: incorrect keys format''))
          else (case join_bits data permission_keys of
                  Inl e \<Rightarrow> Inl e
                | Inr permissions \<Rightarrow> int_base2 permissions))"

text \<open>
  The inherited validation as the framework runs it for this field, a \<open>DictField\<close>
  whose child is a \<open>BooleanField\<close>; it is not code of the repository and stands here
  for the instances below. A raw value is a boolean or some other value that the child
  rejects (\<open>Other\<close> holds its text). Every value goes through the child; the keys are
  kept; if a value was rejected, the errors of all of them are raised as one
  \<open>ValidationError\<close> keyed by the dictionary keys, otherwise the dictionary of the
  validated booleans is returned. The message is the framework's and stands for
  whatever its release words it as.
\<close>

datatype raw_value = Boolean bool | Other string

fun run_child_validation :: "raw_value pydict \<Rightarrow> bool pydict \<times> (string \<times> string list) list" where
  "run_child_validation [] = ([], [])"
| "run_child_validation ((k, v) # rest) =
     (let (result, errors) = run_child_validation rest
      in case v of
           Boolean b \<Rightarrow> ((k, b) # result, errors)
         | Other s \<Rightarrow> (result, (k, [''Must be a valid boolean.'']) # errors))"

definition DictField_to_internal_value :: "raw_value pydict \<Rightarrow> error + bool pydict" where
  "DictField_to_internal_value raw =
     (case run_child_validation raw of
        (result, []) \<Rightarrow> Inr result
      | (result, errors) \<Rightarrow> Inl (ValidationError (Fields errors)))"

text \<open>Whether a result is a raised \<open>ValidationError\<close>.\<close>

definition is_ValidationError :: "error + 'a \<Rightarrow> bool" where
  "is_ValidationError r = (case r of Inl (ValidationError d) \<Rightarrow> True | _ \<Rightarrow> False)"

text \<open>
  The number whose four binary digits, most significant first, are the given booleans:
  the value the lemmas below compare \<open>to_internal_value\<close> with.
\<close>

definition pack :: "bool \<Rightarrow> bool \<Rightarrow> bool \<Rightarrow> bool \<Rightarrow> int" where
  "pack c r u d =
     (if c then 8 else 0) + (if r then 4 else 0) + (if u then 2 else 0) + (if d then 1 else 0)"

section \<open>Webhook dispatch (webhook/utils.py)\<close>

text \<open>A row of the \<open>Hook\<close> table of \<open>rest_hooks\<close>.\<close>

record hook =
  hook_id :: nat
  hook_user :: nat
  event :: string
  target :: string

text \<open>An outbound HTTP request.\<close>

record 'i request =
  http_method :: string
  url :: string
  payload :: 'i

text \<open>
  The loop of \<open>find_and_fire_hook\<close>: every hook gets the fixed target assigned (on the
  object in memory; the row is not saved) and is delivered. \<open>Hook.deliver_hook\<close> is
  the library's and a parameter here; \<open>'w\<close> is whatever it acts on.
\<close>

fun fire_hooks :: "(hook \<Rightarrow> 'i \<Rightarrow> 'w \<Rightarrow> 'w) \<Rightarrow> 'i \<Rightarrow> hook list \<Rightarrow> 'w \<Rightarrow> 'w" where
  "fire_hooks deliver_hook instance [] w = w"
| "fire_hooks deliver_hook instance (h # hooks) w =
     fire_hooks deliver_hook instance hooks
       (deliver_hook (h\<lparr>target := ''http://productsservice:8080/webhook/''\<rparr>) instance w)"

text \<open>
  \<open>find_and_fire_hook(event_name, instance)\<close>. \<open>HOOK_EVENTS\<close> is the configured
  mapping from event names to model actions, \<open>hooks\<close> the \<open>Hook\<close> table.
\<close>

definition find_and_fire_hook ::
  "string pydict \<Rightarrow> (hook \<Rightarrow> 'i \<Rightarrow> 'w \<Rightarrow> 'w) \<Rightarrow> hook list \<Rightarrow> string \<Rightarrow> 'i \<Rightarrow> 'w \<Rightarrow> error + 'w"
where
  "find_and_fire_hook HOOK_EVENTS deliver_hook hooks event_name instance w =
     (if event_name \<notin> set (map fst HOOK_EVENTS)
      then Inl (Exception
        ([CHR 0x22] @ event_name @ [CHR 0x22] @ '' does not exist in `settings.HOOK_EVENTS`.''))
      else Inr (fire_hooks deliver_hook instance
                  (filter (\<lambda>hook. event hook = event_name) hooks) w))"

text \<open>
  Modelled from the spec: what \<open>Hook.deliver_hook\<close> of \<open>rest_hooks\<close> does, which is not
  code of the sources. Section 6 has a webhook delivered as an HTTP POST; the request
  goes to the target the hook object holds and is recorded in the list of requests sent.
\<close>

definition post_to_target :: "hook \<Rightarrow> 'i \<Rightarrow> 'i request list \<Rightarrow> 'i request list" where
  "post_to_target h instance sent =
     sent @ [\<lparr>http_method = ''POST'', url = target h, payload = instance\<rparr>]"

section \<open>CoreUserSerializer.validate_invitation_token (workflow/serializers.py)\<close>

text \<open>The columns of a \<open>CoreUser\<close> row that the serializers read or write.\<close>

record core_user =
  CoreUser_pk :: nat
  CoreUser_username :: string
  CoreUser_email :: string
  CoreUser_password :: string
  CoreUser_is_active :: bool
  CoreUser_organization :: nat

text \<open>\<open>User.objects.filter(email=e).exists()\<close>.\<close>

definition email_exists :: "core_user list \<Rightarrow> string \<Rightarrow> bool" where
  "email_exists users e = list_ex (\<lambda>u. CoreUser_email u = e) users"

text \<open>
  \<open>validate_invitation_token(self, value)\<close>. \<open>jwt_decode\<close> stands for
  \<open>jwt.decode(\<cdot>, settings.SECRET_KEY, algorithms='HS256')\<close>: the payload, or the
  exception raised. \<open>initial_data\<close> is the data as submitted. The body of the
  \<open>try\<close> comes first; the two \<open>except\<close> clauses turn \<open>DecodeError\<close> and
  \<open>ExpiredSignatureError\<close> into validation errors and let every other exception pass,
  the \<open>ValidationError\<close> of the body and a \<open>KeyError\<close> of a lookup included.
\<close>

definition check_invitation ::
  "(string \<Rightarrow> error + string pydict) \<Rightarrow> core_user list \<Rightarrow> string pydict \<Rightarrow> string \<Rightarrow> error + unit"
where
  "check_invitation jwt_decode users initial_data value =
     (case jwt_decode value of
        Inl e \<Rightarrow> Inl e
      | Inr decoded \<Rightarrow>
          (case getitem decoded ''email'' of
             Inl e \<Rightarrow> Inl e
           | Inr token_email \<Rightarrow>
               if email_exists users token_email
               then Inl (ValidationError (Msg ''Token is not valid.''))
               else (case getitem initial_data ''email'' of
                       Inl e \<Rightarrow> Inl e
                     | Inr submitted \<Rightarrow>
                         if token_email \<noteq> submitted
                         then Inl (ValidationError (Msg ''Token is not valid.''))
                         else Inr ())))"

definition validate_invitation_token ::
  "(string \<Rightarrow> error + string pydict) \<Rightarrow> core_user list \<Rightarrow> string pydict \<Rightarrow> string \<Rightarrow> error + string"
where
  "validate_invitation_token jwt_decode users initial_data value =
     (case check_invitation jwt_decode users initial_data value of
        Inl e \<Rightarrow>
          if e = DecodeError then Inl (ValidationError (Msg ''Token is not valid.''))
          else if e = ExpiredSignatureError then Inl (ValidationError (Msg ''Token is expired.''))
          else Inl e
      | Inr _ \<Rightarrow> Inr value)"

text \<open>Sample data for the concrete instances below.\<close>

definition sample_hooks :: "hook list" where
  "sample_hooks =
     [\<lparr>hook_id = 1, hook_user = 7, event = ''workflowlevel1.created'',
        target = ''http://example.org/a''\<rparr>,
      \<lparr>hook_id = 2, hook_user = 7, event = ''workflowlevel1.deleted'',
        target = ''http://example.org/b''\<rparr>,
      \<lparr>hook_id = 3, hook_user = 8, event = ''workflowlevel1.created'',
        target = ''http://example.org/c''\<rparr>]"

definition sample_events :: "string pydict" where
  "sample_events =
     [(''workflowlevel1.created'', ''workflow.WorkflowLevel1.created''),
      (''workflowlevel1.deleted'', ''workflow.WorkflowLevel1.deleted'')]"

definition sample_jwt_decode :: "string \<Rightarrow> error + string pydict" where
  "sample_jwt_decode value =
     (if value = ''signed'' then Inr [(''email'', ''ada@example.org'')]
      else if value = ''old'' then Inl ExpiredSignatureError
      else Inl DecodeError)"

section \<open>Password reset serializers (workflow/serializers.py)\<close>

text \<open>
  The validated attributes. \<open>uid\<close> and \<open>token\<close> are required fields of the check
  serializer; the confirm serializer inherits them and adds the two required password
  fields, so each is present when \<open>validate\<close> runs.
\<close>

record check_attrs =
  uid :: string
  token :: string

record confirm_attrs = check_attrs +
  new_password1 :: string
  new_password2 :: string

text \<open>
  The calls into Django that the two \<open>validate\<close> methods make, as parameters:
  \<open>urlsafe_base64_decode\<close> and \<open>force_text\<close> of \<open>django.utils\<close>, the conversion of
  the text to a primary key that \<open>User.objects.get(pk=uid)\<close> starts with,
  \<open>default_token_generator.check_token\<close> and \<open>password_validation.validate_password\<close>.
  Each returns its result or the exception it raises.
\<close>

record auth_calls =
  urlsafe_base64_decode :: "string \<Rightarrow> error + string"
  force_text :: "string \<Rightarrow> error + string"
  pk_to_python :: "string \<Rightarrow> error + nat"
  check_token :: "core_user \<Rightarrow> string \<Rightarrow> bool"
  validate_password :: "string \<Rightarrow> core_user \<Rightarrow> error + unit"

text \<open>
  \<open>User.objects.get(pk=uid)\<close> on the user table: the row with that primary key (the
  key is unique, so the first such row is the only one), or \<open>DoesNotExist\<close>.
\<close>

definition User_objects_get :: "auth_calls \<Rightarrow> core_user list \<Rightarrow> string \<Rightarrow> error + core_user" where
  "User_objects_get dj users uid_text =
     (case pk_to_python dj uid_text of
        Inl e \<Rightarrow> Inl e
      | Inr pk \<Rightarrow>
          (case find (\<lambda>u. CoreUser_pk u = pk) users of
             None \<Rightarrow> Inl DoesNotExist
           | Some u \<Rightarrow> Inr u))"

text \<open>The body of the \<open>try\<close> of \<open>validate\<close>: decode the uid and get the user.\<close>

definition decode_uid_and_get_user ::
  "auth_calls \<Rightarrow> core_user list \<Rightarrow> string \<Rightarrow> error + core_user"
where
  "decode_uid_and_get_user dj users uidb64 =
     (case urlsafe_base64_decode dj uidb64 of
        Inl e \<Rightarrow> Inl e
      | Inr bytes \<Rightarrow>
          (case force_text dj bytes of
             Inl e \<Rightarrow> Inl e
           | Inr uid_text \<Rightarrow> User_objects_get dj users uid_text))"

text \<open>\<open>except (TypeError, ValueError, OverflowError, User.DoesNotExist)\<close>.\<close>

definition uid_exception :: "error \<Rightarrow> bool" where
  "uid_exception e =
     (e = TypeError \<or> e = ValueError \<or> e = OverflowError \<or> e = DoesNotExist)"

text \<open>
  \<open>CoreUserResetPasswordCheckSerializer.validate\<close>. It returns the attributes and
  keeps the user in \<open>self.user\<close>; the model returns both.
\<close>

definition CoreUserResetPasswordCheckSerializer_validate ::
  "auth_calls \<Rightarrow> core_user list \<Rightarrow> 'a check_attrs_scheme \<Rightarrow>
     error + (core_user \<times> 'a check_attrs_scheme)"
where
  "CoreUserResetPasswordCheckSerializer_validate dj users attrs =
     (case decode_uid_and_get_user dj users (uid attrs) of
        Inl e \<Rightarrow>
          if uid_exception e
          then Inl (ValidationError (Fields [(''uid'', [''Invalid value''])]))
          else Inl e
      | Inr user \<Rightarrow>
          if \<not> check_token dj user (token attrs)
          then Inl (ValidationError (Fields [(''token'', [''Invalid value''])]))
          else Inr (user, attrs))"

text \<open>\<open>CoreUserResetPasswordConfirmSerializer.validate\<close>.\<close>

definition CoreUserResetPasswordConfirmSerializer_validate ::
  "auth_calls \<Rightarrow> core_user list \<Rightarrow> confirm_attrs \<Rightarrow> error + (core_user \<times> confirm_attrs)"
where
  "CoreUserResetPasswordConfirmSerializer_validate dj users attrs0 =
     (case CoreUserResetPasswordCheckSerializer_validate dj users attrs0 of
        Inl e \<Rightarrow> Inl e
      | Inr (user, attrs) \<Rightarrow>
          (let password1 = new_password1 attrs;
               password2 = new_password2 attrs
           in if password1 \<noteq> password2
              then Inl (ValidationError (Msg ''The two password fields didn't match.''))
              else (case validate_password dj password2 user of
                      Inl e \<Rightarrow> Inl e
                    | Inr _ \<Rightarrow> Inr (user, attrs))))"

text \<open>
  \<open>Model.save()\<close> on a user: the row with the user's primary key is replaced, or the
  user is added when no row has it.
\<close>

definition Model_save :: "core_user \<Rightarrow> core_user list \<Rightarrow> core_user list" where
  "Model_save user users =
     (if list_ex (\<lambda>row. CoreUser_pk row = CoreUser_pk user) users
      then map (\<lambda>row. if CoreUser_pk row = CoreUser_pk user then user else row) users
      else users @ [user])"

text \<open>
  \<open>CoreUserResetPasswordConfirmSerializer.save\<close>, on the user and the data that
  \<open>validate\<close> returned. \<open>make_password\<close> is the hashing of \<open>set_password\<close>.
\<close>

definition CoreUserResetPasswordConfirmSerializer_save ::
  "(string \<Rightarrow> string) \<Rightarrow> core_user \<Rightarrow> confirm_attrs \<Rightarrow> core_user list \<Rightarrow>
     core_user \<times> core_user list"
where
  "CoreUserResetPasswordConfirmSerializer_save make_password self_user validated_data users =
     (let user = self_user\<lparr>CoreUser_password := make_password (new_password1 validated_data)\<rparr>
      in (user, Model_save user users))"

text \<open>
  Modelled from the spec: the view action that confirms a password reset, which is in
  \<open>workflow/views.py\<close> and not among the sources. By section 7 a validation error
  surfaces as a 400-level response, so the serializer is saved only with what
  \<open>validate\<close> has returned; an exception leaves the user table as it was.
\<close>

definition reset_password_confirm ::
  "auth_calls \<Rightarrow> (string \<Rightarrow> string) \<Rightarrow> confirm_attrs \<Rightarrow> core_user list \<Rightarrow>
     (error + core_user) \<times> core_user list"
where
  "reset_password_confirm dj make_password attrs users =
     (case CoreUserResetPasswordConfirmSerializer_validate dj users attrs of
        Inl e \<Rightarrow> (Inl e, users)
      | Inr (user, validated_data) \<Rightarrow>
          (let (saved, users') =
                 CoreUserResetPasswordConfirmSerializer_save make_password user validated_data users
           in (Inr saved, users')))"

text \<open>Sample data for the concrete instances below.\<close>

definition sample_user :: core_user where
  "sample_user =
     \<lparr>CoreUser_pk = 1, CoreUser_username = ''ada'', CoreUser_email = ''ada@example.org'',
      CoreUser_password = ''hash-of-old'', CoreUser_is_active = True,
      CoreUser_organization = 3\<rparr>"

definition sample_django :: auth_calls where
  "sample_django =
     \<lparr>urlsafe_base64_decode = (\<lambda>s. if s = ''MQ'' then Inr ''1''
                                  else if s = ''Mg'' then Inr ''2'' else Inl ValueError),
      force_text = Inr,
      pk_to_python = (\<lambda>s. if s = ''1'' then Inr 1 else if s = ''2'' then Inr 2
                           else Inl ValueError),
      check_token = (\<lambda>u t. t = ''5x2-4e1a''),
      validate_password = (\<lambda>p u. if length p < 8
                                  then Inl (ValidationError (Msg ''This password is too short.''))
                                  else Inr ())\<rparr>"

definition sample_make_password :: "string \<Rightarrow> string" where
  "sample_make_password raw = ''hash-of-'' @ raw"

section \<open>CoreUserWritableSerializer.create (workflow/serializers.py)\<close>

text \<open>The rows of the database that \<open>create\<close> reads and writes.\<close>

record organization_row =
  Organization_uuid :: nat
  Organization_name :: string

record core_group =
  CoreGroup_id :: nat
  CoreGroup_name :: string
  CoreGroup_organization :: nat
  CoreGroup_is_org_level :: bool
  CoreGroup_permissions :: int

text \<open>
  The tables; \<open>coreuser_core_groups\<close> is the many-to-many relation behind
  \<open>coreuser.core_groups\<close>, pairs of a user's primary key and a group's id.
\<close>

record database =
  organizations :: "organization_row list"
  coregroups :: "core_group list"
  coreusers :: "core_user list"
  coreuser_core_groups :: "(nat \<times> nat) list"

text \<open>
  The validated data. \<open>organization\<close> is the name under
  \<open>validated_data['organization']\<close>, where the required field \<open>organization_name\<close>
  with source \<open>organization.name\<close> puts it; \<open>password\<close> is required as well;
  \<open>core_groups\<close>, \<open>invitation_token\<close> and \<open>is_active\<close> may be absent.
\<close>

record validated_data =
  organization :: string
  core_groups :: "core_group list option"
  invitation_token :: "string option"
  is_active :: "bool option"
  password :: string
  username :: string
  email :: string

text \<open>\<open>bool(x)\<close> for a string or \<open>None\<close>.\<close>

definition bool_of_token :: "string option \<Rightarrow> bool" where
  "bool_of_token x = (case x of None \<Rightarrow> False | Some s \<Rightarrow> s \<noteq> [])"

text \<open>
  \<open>Organization.objects.get_or_create(name=n)\<close>. Creating an organization runs
  \<open>Organization.save\<close> and what it sets off in \<open>workflow/models.py\<close>, which is not
  among the sources: \<open>Organization_create\<close> is a parameter that returns the new row and
  the database after it.
\<close>

definition Organization_get_or_create ::
  "(string \<Rightarrow> database \<Rightarrow> organization_row \<times> database) \<Rightarrow> string \<Rightarrow> database \<Rightarrow>
     error + (organization_row \<times> bool \<times> database)"
where
  "Organization_get_or_create Organization_create n db =
     (case filter (\<lambda>row. Organization_name row = n) (organizations db) of
        [] \<Rightarrow> (let (row, db') = Organization_create n db in Inr (row, True, db'))
      | [row] \<Rightarrow> Inr (row, False, db)
      | _ \<Rightarrow> Inl MultipleObjectsReturned)"

text \<open>
  \<open>CoreUser.objects.create(organization=organization, **validated_data)\<close>: a new row
  with the next primary key. Constraints of the database are not modelled.
\<close>

definition CoreUser_objects_create ::
  "organization_row \<Rightarrow> validated_data \<Rightarrow> bool \<Rightarrow> database \<Rightarrow> core_user \<times> database"
where
  "CoreUser_objects_create org data active db =
     (let row = \<lparr>CoreUser_pk = Suc (fold max (map CoreUser_pk (coreusers db)) 0),
                 CoreUser_username = username data,
                 CoreUser_email = email data,
                 CoreUser_password = password data,
                 CoreUser_is_active = active,
                 CoreUser_organization = Organization_uuid org\<rparr>
      in (row, db\<lparr>coreusers := coreusers db @ [row]\<rparr>))"

text \<open>\<open>CoreGroup.objects.get(organization=org, is_org_level=lvl, permissions=p)\<close>.\<close>

definition CoreGroup_objects_get ::
  "organization_row \<Rightarrow> bool \<Rightarrow> int \<Rightarrow> database \<Rightarrow> error + core_group"
where
  "CoreGroup_objects_get org lvl p db =
     (case filter (\<lambda>g. CoreGroup_organization g = Organization_uuid org \<and>
                        CoreGroup_is_org_level g = lvl \<and> CoreGroup_permissions g = p)
             (coregroups db) of
        [] \<Rightarrow> Inl DoesNotExist
      | [g] \<Rightarrow> Inr g
      | _ \<Rightarrow> Inl MultipleObjectsReturned)"

text \<open>\<open>coreuser.core_groups.add(group)\<close>: the pair is added unless it is there.\<close>

definition core_groups_add :: "core_user \<Rightarrow> core_group \<Rightarrow> database \<Rightarrow> database" where
  "core_groups_add coreuser g db =
     (let pair = (CoreUser_pk coreuser, CoreGroup_id g)
      in if pair \<in> set (coreuser_core_groups db) then db
         else db\<lparr>coreuser_core_groups := coreuser_core_groups db @ [pair]\<rparr>)"

text \<open>
  \<open>create(self, validated_data)\<close>. \<open>make_password\<close> is the hashing of
  \<open>set_password\<close>, \<open>PERMISSIONS_ORG_ADMIN\<close> the constant of \<open>workflow/models.py\<close>.
  The result is the user object returned and the database after the call.
\<close>

definition create ::
  "(string \<Rightarrow> database \<Rightarrow> organization_row \<times> database) \<Rightarrow> (string \<Rightarrow> string) \<Rightarrow> int \<Rightarrow>
     validated_data \<Rightarrow> database \<Rightarrow> error + (core_user \<times> database)"
where
  "create Organization_create make_password PERMISSIONS_ORG_ADMIN data db =
     (case Organization_get_or_create Organization_create (organization data) db of
        Inl e \<Rightarrow> Inl e
      | Inr (org, is_new_org, db1) \<Rightarrow>
          (let groups = (case core_groups data of None \<Rightarrow> [] | Some gs \<Rightarrow> gs);
               token = invitation_token data;
               active = (is_new_org \<or> bool_of_token token);
               (created, db2) = CoreUser_objects_create org data active db1;
               coreuser = created\<lparr>CoreUser_password := make_password (password data)\<rparr>;
               db3 = db2\<lparr>coreusers := Model_save coreuser (coreusers db2)\<rparr>
           in case (if is_new_org
                    then (case CoreGroup_objects_get org True PERMISSIONS_ORG_ADMIN db3 of
                            Inl e \<Rightarrow> Inl e
                          | Inr group_org_admin \<Rightarrow>
                              Inr (core_groups_add coreuser group_org_admin db3))
                    else Inr db3) of
                Inl e \<Rightarrow> Inl e
              | Inr db4 \<Rightarrow>
                  Inr (coreuser, foldl (\<lambda>d g. core_groups_add coreuser g d) db4 groups)))"

text \<open>Whether no organization of the database has the name: \<open>get_or_create\<close> creates.\<close>

definition is_new_organization :: "database \<Rightarrow> string \<Rightarrow> bool" where
  "is_new_organization db n = (filter (\<lambda>row. Organization_name row = n) (organizations db) = [])"

text \<open>Sample data for the concrete instances below.\<close>

definition sample_Organization_create :: "string \<Rightarrow> database \<Rightarrow> organization_row \<times> database" where
  "sample_Organization_create n db =
     (let row = \<lparr>Organization_uuid = Suc (fold max (map Organization_uuid (organizations db)) 0),
                 Organization_name = n\<rparr>;
          k = fold max (map CoreGroup_id (coregroups db)) 0
      in (row,
          db\<lparr>organizations := organizations db @ [row],
             coregroups := coregroups db @
               [\<lparr>CoreGroup_id = k + 1, CoreGroup_name = ''Admins'',
                  CoreGroup_organization = Organization_uuid row,
                  CoreGroup_is_org_level = True, CoreGroup_permissions = 15\<rparr>,
                \<lparr>CoreGroup_id = k + 2, CoreGroup_name = ''Users'',
                  CoreGroup_organization = Organization_uuid row,
                  CoreGroup_is_org_level = True, CoreGroup_permissions = 4\<rparr>]\<rparr>))"

definition sample_database :: database where
  "sample_database =
     \<lparr>organizations = [\<lparr>Organization_uuid = 3, Organization_name = ''Acme''\<rparr>],
      coregroups =
        [\<lparr>CoreGroup_id = 1, CoreGroup_name = ''Admins'', CoreGroup_organization = 3,
           CoreGroup_is_org_level = True, CoreGroup_permissions = 15\<rparr>,
         \<lparr>CoreGroup_id = 2, CoreGroup_name = ''Users'', CoreGroup_organization = 3,
           CoreGroup_is_org_level = True, CoreGroup_permissions = 4\<rparr>],
      coreusers = [sample_user],
      coreuser_core_groups = [(1, 1)]\<rparr>"

definition sample_data :: validated_data where
  "sample_data =
     \<lparr>organization = ''Acme'', core_groups = None, invitation_token = None,
      is_active = Some True, password = ''correct horse'', username = ''bob'',
      email = ''bob@example.org''\<rparr>"

section \<open>Properties of PermissionsField\<close>

text \<open>The sixteen values in range, each by evaluation.\<close>

lemma in16:
  "0 \<le> (n::int) \<Longrightarrow> n < 16 \<Longrightarrow> n \<in> {0, 1, 2, 3, 4, 5, 6, 7, 8, 9, 10, 11, 12, 13, 14, 15}"
  by (simp, arith)

lemma rep_all:
  "\<forall>n \<in> {0, 1, 2, 3, 4, 5, 6, 7, 8, 9, 10, 11, 12, 13, 14, 15 :: int}.
     to_representation n =
       Inr [(''create'', n div 8 mod 2 = 1), (''read'', n div 4 mod 2 = 1),
            (''update'', n div 2 mod 2 = 1), (''delete'', n mod 2 = 1)]"
  by code_simp

lemma back_all:
  "\<forall>n \<in> {0, 1, 2, 3, 4, 5, 6, 7, 8, 9, 10, 11, 12, 13, 14, 15 :: int}.
     to_internal_value Inr
       [(''create'', n div 8 mod 2 = 1), (''read'', n div 4 mod 2 = 1),
        (''update'', n div 2 mod 2 = 1), (''delete'', n mod 2 = 1)] = Inr n"
  by code_simp

text \<open>A dictionary with the four keys, whatever else the list holds.\<close>

lemma internal_pack:
  assumes "set (map fst data) = set permission_keys"
    and "map_of data ''create'' = Some c" "map_of data ''read'' = Some r"
    and "map_of data ''update'' = Some u" "map_of data ''delete'' = Some d"
  shows "to_internal_value Inr data = Inr (pack c r u d)"
  using assms
  by (simp add: to_internal_value_def permission_keys_def getitem_def str_int_bool_def
      int_base2_def pack_def)

lemma rep_pack:
  "to_representation (pack c r u d) =
     Inr [(''create'', c), (''read'', r), (''update'', u), (''delete'', d)]"
  by (cases c; cases r; cases u; cases d; simp add: pack_def rep_all [rule_format])

lemma keys_present:
  assumes "set (map fst data) = set permission_keys"
  shows "\<exists>c r u d. map_of data ''create'' = Some c \<and> map_of data ''read'' = Some r \<and>
           map_of data ''update'' = Some u \<and> map_of data ''delete'' = Some d"
proof -
  have "k \<in> set permission_keys \<Longrightarrow> \<exists>b. map_of data k = Some b" for k
    using assms by (cases "map_of data k") (simp_all add: map_of_eq_None_iff)
  then show ?thesis by (simp add: permission_keys_def)
qed

lemma map_of_keys:
  assumes "set (map fst data) = set permission_keys"
    and "map_of data ''create'' = Some c" "map_of data ''read'' = Some r"
    and "map_of data ''update'' = Some u" "map_of data ''delete'' = Some d"
  shows "map_of [(''create'', c), (''read'', r), (''update'', u), (''delete'', d)] = map_of data"
proof
  fix k
  show "map_of [(''create'', c), (''read'', r), (''update'', u), (''delete'', d)] k = map_of data k"
  proof (cases "k \<in> set permission_keys")
    case True
    then show ?thesis using assms(2-) by (auto simp: permission_keys_def)
  next
    case False
    then have "map_of data k = None" using assms(1) by (simp add: map_of_eq_None_iff)
    then show ?thesis using False by (simp add: permission_keys_def)
  qed
qed


text \<open>
  C2. For every integer \<open>n\<close> with \<open>0 \<le> n < 16\<close>, \<open>to_representation n\<close> is the
  dictionary that maps create, read, update and delete, in that order, to the four
  binary digits of \<open>n\<close>, most significant first, as booleans; and
  \<open>to_representation 9\<close> is create and delete true, read and update false.
\<close>

theorem to_representation_digits:
  assumes "0 \<le> n" and "n < 16"
  shows "to_representation n =
           Inr [(''create'', n div 8 mod 2 = 1), (''read'', n div 4 mod 2 = 1),
                (''update'', n div 2 mod 2 = 1), (''delete'', n mod 2 = 1)]
         \<and> to_representation 9 =
           Inr [(''create'', True), (''read'', False), (''update'', False), (''delete'', True)]"
proof
  from assms have "n \<in> {0, 1, 2, 3, 4, 5, 6, 7, 8, 9, 10, 11, 12, 13, 14, 15}" by (rule in16)
  then show "to_representation n =
           Inr [(''create'', n div 8 mod 2 = 1), (''read'', n div 4 mod 2 = 1),
                (''update'', n div 2 mod 2 = 1), (''delete'', n mod 2 = 1)]"
    by (rule rep_all [rule_format])
  show "to_representation 9 =
           Inr [(''create'', True), (''read'', False), (''update'', False), (''delete'', True)]"
    using rep_all [rule_format, of 9] by simp
qed

theorem to_representation_digits_witness:
  "to_representation 6 =
     Inr [(''create'', False), (''read'', True), (''update'', True), (''delete'', False)]"
  using to_representation_digits [of 6] by simp

text \<open>
  C1. Encoding and decoding are mutually inverse on valid inputs. A dictionary of
  booleans whose key set is exactly the four permission keys is decoded to an integer
  whose representation is the same dictionary (the same value under every key), and an
  integer \<open>n\<close> with \<open>0 \<le> n < 16\<close> is represented by a dictionary that decodes to
  \<open>n\<close>. The inherited validation returns a dictionary of booleans as it is, so it is
  \<open>Inr\<close> here.
\<close>

theorem permissions_roundtrip:
  "(set (map fst data) = set permission_keys \<longrightarrow>
      (\<exists>n r. to_internal_value Inr data = Inr n \<and> to_representation n = Inr r \<and>
             map_of r = map_of data))
   \<and> (0 \<le> n \<and> n < 16 \<longrightarrow>
      (\<exists>r. to_representation n = Inr r \<and> to_internal_value Inr r = Inr n))"
proof (intro conjI impI)
  assume ks: "set (map fst data) = set permission_keys"
  from keys_present [OF ks] obtain c r u d where
    m: "map_of data ''create'' = Some c" "map_of data ''read'' = Some r"
       "map_of data ''update'' = Some u" "map_of data ''delete'' = Some d"
    by blast
  have "to_internal_value Inr data = Inr (pack c r u d)"
    using ks m by (rule internal_pack)
  moreover have "to_representation (pack c r u d) =
      Inr [(''create'', c), (''read'', r), (''update'', u), (''delete'', d)]"
    by (rule rep_pack)
  moreover have "map_of [(''create'', c), (''read'', r), (''update'', u), (''delete'', d)] =
      map_of data"
    using ks m by (rule map_of_keys)
  ultimately show "\<exists>n r. to_internal_value Inr data = Inr n \<and> to_representation n = Inr r \<and>
             map_of r = map_of data"
    by blast
next
  assume "0 \<le> n \<and> n < 16"
  then have mem: "n \<in> {0, 1, 2, 3, 4, 5, 6, 7, 8, 9, 10, 11, 12, 13, 14, 15}" using in16 by blast
  show "\<exists>r. to_representation n = Inr r \<and> to_internal_value Inr r = Inr n"
    using rep_all [rule_format, OF mem] back_all [rule_format, OF mem] by simp
qed

theorem permissions_roundtrip_witness:
  "(\<exists>n r. to_internal_value Inr
        [(''delete'', True), (''create'', True), (''read'', False), (''update'', False)] = Inr n \<and>
      to_representation n = Inr r \<and>
      map_of r = map_of [(''delete'', True), (''create'', True), (''read'', False), (''update'', False)])
   \<and> (\<exists>r. to_representation 9 = Inr r \<and> to_internal_value Inr r = Inr 9)"
proof -
  have k: "set (map fst [(''delete'', True), (''create'', True), (''read'', False), (''update'', False)])
      = set permission_keys"
    by (auto simp: permission_keys_def)
  have r: "0 \<le> (9::int) \<and> (9::int) < 16" by simp
  from permissions_roundtrip
    [of "[(''delete'', True), (''create'', True), (''read'', False), (''update'', False)]" 9] k r
  show ?thesis by blast
qed

text \<open>A rejection by the inherited validation is passed on as it is.\<close>

lemma to_internal_value_super_rejects:
  "super_to_internal_value raw = Inl e \<Longrightarrow>
     to_internal_value super_to_internal_value raw = Inl e"
  by (simp add: to_internal_value_def)

text \<open>What it returns on a dictionary it has accepted.\<close>

lemma to_internal_value_accepted:
  assumes "super_to_internal_value raw = Inr data"
  shows "(set (map fst data) \<noteq> set permission_keys \<longrightarrow>
            to_internal_value super_to_internal_value raw =
              Inl (ValidationError (Msg ''Permissions field: incorrect keys format'')))
         \<and> (set (map fst data) = set permission_keys \<longrightarrow>
            (\<exists>n. to_internal_value super_to_internal_value raw = Inr n))"
proof (cases "set (map fst data) = set permission_keys")
  case True
  from keys_present [OF True] obtain c r u d where
    m: "map_of data ''create'' = Some c" "map_of data ''read'' = Some r"
       "map_of data ''update'' = Some u" "map_of data ''delete'' = Some d"
    by blast
  have "to_internal_value Inr data = Inr (pack c r u d)"
    using True m by (rule internal_pack)
  then have "to_internal_value super_to_internal_value raw = Inr (pack c r u d)"
    using assms by (simp add: to_internal_value_def)
  with True show ?thesis by simp
next
  case False
  with assms show ?thesis by (simp add: to_internal_value_def)
qed

text \<open>The framework's validation keeps the keys of a dictionary it accepts.\<close>

lemma run_child_validation_keys:
  "snd (run_child_validation raw) = [] \<Longrightarrow> map fst (fst (run_child_validation raw)) = map fst raw"
  by (induction raw rule: run_child_validation.induct)
     (auto simp: Let_def split: prod.splits raw_value.splits)

lemma DictField_to_internal_value_keys:
  "DictField_to_internal_value raw = Inr data \<Longrightarrow> map fst data = map fst raw"
  using run_child_validation_keys [of raw]
  by (auto simp: DictField_to_internal_value_def split: prod.splits list.splits)

text \<open>
  C3, as amended. \<open>to_internal_value\<close> raises a \<open>ValidationError\<close> if and only if
  the inherited validation rejects the input with one or returns a dictionary whose
  key set differs from the four permission keys (then it is the error about the keys
  format); when the inherited validation accepts the input and the key set matches, it
  returns an integer.
\<close>

theorem to_internal_value_keys:
  "((\<exists>m. to_internal_value super_to_internal_value raw = Inl (ValidationError m)) \<longleftrightarrow>
      ((\<exists>m. super_to_internal_value raw = Inl (ValidationError m)) \<or>
       (\<exists>data. super_to_internal_value raw = Inr data \<and>
               set (map fst data) \<noteq> set permission_keys)))
   \<and> (\<forall>data. super_to_internal_value raw = Inr data \<and>
              set (map fst data) \<noteq> set permission_keys \<longrightarrow>
         to_internal_value super_to_internal_value raw =
           Inl (ValidationError (Msg ''Permissions field: incorrect keys format'')))
   \<and> (\<forall>data. super_to_internal_value raw = Inr data \<and>
              set (map fst data) = set permission_keys \<longrightarrow>
         (\<exists>n. to_internal_value super_to_internal_value raw = Inr n))"
proof (cases "super_to_internal_value raw")
  case (Inl e)
  then show ?thesis by (simp add: to_internal_value_super_rejects)
next
  case (Inr data)
  from to_internal_value_accepted
         [where super_to_internal_value = super_to_internal_value and raw = raw, OF Inr] Inr
  show ?thesis
    by (cases "set (map fst data) = set permission_keys") auto
qed

theorem to_internal_value_keys_witness:
  "to_internal_value DictField_to_internal_value
       [(''create'', Boolean True), (''read'', Boolean False), (''erase'', Boolean True)]
     = Inl (ValidationError (Msg ''Permissions field: incorrect keys format''))
   \<and> (\<exists>n. to_internal_value DictField_to_internal_value
          [(''read'', Boolean False), (''create'', Boolean True), (''delete'', Boolean True),
           (''update'', Boolean False)] = Inr n)
   \<and> (\<exists>m. to_internal_value DictField_to_internal_value
          [(''create'', Other ''maybe''), (''read'', Boolean False),
           (''update'', Boolean False), (''delete'', Boolean True)] = Inl (ValidationError m))"
proof (intro conjI)
  have acc: "DictField_to_internal_value
        [(''create'', Boolean True), (''read'', Boolean False), (''erase'', Boolean True)] =
      Inr [(''create'', True), (''read'', False), (''erase'', True)]"
    by (simp add: DictField_to_internal_value_def)
  have "''erase'' \<in> set (map fst [(''create'', True), (''read'', False), (''erase'', True)])"
    by simp
  moreover have "''erase'' \<notin> set permission_keys"
    by (simp add: permission_keys_def)
  ultimately have ne: "set (map fst [(''create'', True), (''read'', False), (''erase'', True)])
      \<noteq> set permission_keys"
    by metis
  from to_internal_value_keys
      [of DictField_to_internal_value
          "[(''create'', Boolean True), (''read'', Boolean False), (''erase'', Boolean True)]",
       THEN conjunct2, THEN conjunct1, rule_format, OF conjI, OF acc ne]
  show "to_internal_value DictField_to_internal_value
       [(''create'', Boolean True), (''read'', Boolean False), (''erase'', Boolean True)]
     = Inl (ValidationError (Msg ''Permissions field: incorrect keys format''))" .
next
  have acc: "DictField_to_internal_value
        [(''read'', Boolean False), (''create'', Boolean True), (''delete'', Boolean True),
         (''update'', Boolean False)] =
      Inr [(''read'', False), (''create'', True), (''delete'', True), (''update'', False)]"
    by (simp add: DictField_to_internal_value_def)
  have eq: "set (map fst [(''read'', False), (''create'', True), (''delete'', True),
      (''update'', False)]) = set permission_keys"
    by (auto simp: permission_keys_def)
  from to_internal_value_keys
      [of DictField_to_internal_value
          "[(''read'', Boolean False), (''create'', Boolean True), (''delete'', Boolean True),
            (''update'', Boolean False)]",
       THEN conjunct2, THEN conjunct2, rule_format, OF conjI, OF acc eq]
  show "\<exists>n. to_internal_value DictField_to_internal_value
          [(''read'', Boolean False), (''create'', Boolean True), (''delete'', Boolean True),
           (''update'', Boolean False)] = Inr n" .
next
  have rej: "\<exists>m. DictField_to_internal_value
        [(''create'', Other ''maybe''), (''read'', Boolean False),
         (''update'', Boolean False), (''delete'', Boolean True)] = Inl (ValidationError m)"
    by (simp add: DictField_to_internal_value_def)
  from to_internal_value_keys
      [of DictField_to_internal_value
          "[(''create'', Other ''maybe''), (''read'', Boolean False),
            (''update'', Boolean False), (''delete'', Boolean True)]",
       THEN conjunct1, THEN iffD2, OF disjI1, OF rej]
  show "\<exists>m. to_internal_value DictField_to_internal_value
          [(''create'', Other ''maybe''), (''read'', Boolean False),
           (''update'', Boolean False), (''delete'', Boolean True)] = Inl (ValidationError m)" .
qed

text \<open>
  The claim as first stated has the error raised only when the key set of the input
  differs. An input with exactly the four keys and a value that is no boolean is
  rejected by the inherited validation, whose \<open>ValidationError\<close> passes through.
\<close>

theorem to_internal_value_keys_counterexample:
  "set (map fst [(''create'', Other ''maybe''), (''read'', Boolean False),
                 (''update'', Boolean False), (''delete'', Boolean True)]) = set permission_keys
   \<and> is_ValidationError
       (to_internal_value DictField_to_internal_value
          [(''create'', Other ''maybe''), (''read'', Boolean False),
           (''update'', Boolean False), (''delete'', Boolean True)])"
  by (simp add: to_internal_value_def DictField_to_internal_value_def is_ValidationError_def
      permission_keys_def)

text \<open>
  C9. For every integer \<open>n \<ge> 16\<close>, \<open>to_representation\<close> clamps the value to 15:
  the result has all four permissions true and is the representation of 15, so
  \<open>to_representation\<close> is not injective from 15 on, and decoding the result gives 15
  and not \<open>n\<close>.
\<close>

theorem to_representation_clamps:
  assumes "16 \<le> n"
  shows "to_representation n =
           Inr [(''create'', True), (''read'', True), (''update'', True), (''delete'', True)]
         \<and> to_representation n = to_representation 15
         \<and> (\<exists>d. to_representation n = Inr d \<and> to_internal_value Inr d = Inr 15 \<and>
                  to_internal_value Inr d \<noteq> Inr n)"
proof -
  have same: "to_representation n = to_representation 15"
    using assms by (simp add: to_representation_def)
  have full: "to_representation 15 =
      Inr [(''create'', True), (''read'', True), (''update'', True), (''delete'', True)]"
    using rep_all [rule_format, of 15] by simp
  have inv: "to_internal_value Inr
      [(''create'', True), (''read'', True), (''update'', True), (''delete'', True)] = Inr 15"
    using back_all [rule_format, of 15] by simp
  from assms have "n \<noteq> 15" by simp
  with same full inv show ?thesis by simp
qed

theorem to_representation_clamps_witness:
  "to_representation 16 = to_representation 15 \<and>
   to_representation 1000 =
     Inr [(''create'', True), (''read'', True), (''update'', True), (''delete'', True)]"
proof -
  have a: "(16::int) \<le> 16" and b: "(16::int) \<le> 1000" by simp_all
  from to_representation_clamps [OF a] to_representation_clamps [OF b] show ?thesis by blast
qed

section \<open>Properties of the webhook dispatch\<close>

lemma fire_hooks_foldl:
  "fire_hooks deliver_hook instance hooks w =
     foldl (\<lambda>w h. deliver_hook (h\<lparr>target := ''http://productsservice:8080/webhook/''\<rparr>) instance w)
       w hooks"
  by (induction hooks arbitrary: w) simp_all

lemma fire_hooks_post:
  "fire_hooks post_to_target instance hooks sent =
     sent @ replicate (length hooks)
       \<lparr>http_method = ''POST'', url = ''http://productsservice:8080/webhook/'',
        payload = instance\<rparr>"
proof (induction hooks arbitrary: sent)
  case Nil
  then show ?case by simp
next
  case (Cons h hooks)
  then show ?case
    by (simp add: post_to_target_def replicate_app_Cons_same)
qed

text \<open>
  C5. \<open>find_and_fire_hook\<close> raises an exception if and only if the event name is not a
  key of \<open>HOOK_EVENTS\<close>: then it raises the exception that names the event; for a
  registered name it raises nothing and delivers: the result is what the deliveries to
  the hooks of that event, one after the other, each with the fixed target, leave.
\<close>

theorem find_and_fire_hook_raises:
  "((\<exists>e. find_and_fire_hook HOOK_EVENTS deliver_hook hooks event_name instance w = Inl e) \<longleftrightarrow>
      event_name \<notin> set (map fst HOOK_EVENTS))
   \<and> (event_name \<notin> set (map fst HOOK_EVENTS) \<longrightarrow>
        find_and_fire_hook HOOK_EVENTS deliver_hook hooks event_name instance w =
          Inl (Exception ([CHR 0x22] @ event_name @ [CHR 0x22] @
                 '' does not exist in `settings.HOOK_EVENTS`.'')))
   \<and> (event_name \<in> set (map fst HOOK_EVENTS) \<longrightarrow>
        find_and_fire_hook HOOK_EVENTS deliver_hook hooks event_name instance w =
          Inr (foldl (\<lambda>w h. deliver_hook
                        (h\<lparr>target := ''http://productsservice:8080/webhook/''\<rparr>) instance w)
                 w (filter (\<lambda>hook. event hook = event_name) hooks)))"
  by (simp add: find_and_fire_hook_def fire_hooks_foldl)

theorem find_and_fire_hook_raises_witness:
  "find_and_fire_hook sample_events post_to_target sample_hooks ''workflowlevel2.created''
       (5::nat) [] =
     Inl (Exception ([CHR 0x22] @ ''workflowlevel2.created'' @ [CHR 0x22] @
            '' does not exist in `settings.HOOK_EVENTS`.''))
   \<and> find_and_fire_hook sample_events post_to_target sample_hooks ''workflowlevel1.deleted''
       (5::nat) [] =
     Inr [\<lparr>http_method = ''POST'', url = ''http://productsservice:8080/webhook/'', payload = 5\<rparr>]"
proof (intro conjI)
  have a: "''workflowlevel2.created'' \<notin> set (map fst sample_events)"
    by (simp add: sample_events_def)
  from find_and_fire_hook_raises
         [of sample_events post_to_target sample_hooks "''workflowlevel2.created''" "5::nat" "[]",
          THEN conjunct2, THEN conjunct1, rule_format, OF a]
  show "find_and_fire_hook sample_events post_to_target sample_hooks ''workflowlevel2.created''
       (5::nat) [] =
     Inl (Exception ([CHR 0x22] @ ''workflowlevel2.created'' @ [CHR 0x22] @
            '' does not exist in `settings.HOOK_EVENTS`.''))" .
  have b: "''workflowlevel1.deleted'' \<in> set (map fst sample_events)"
    by (simp add: sample_events_def)
  have f: "filter (\<lambda>hook. event hook = ''workflowlevel1.deleted'') sample_hooks =
      [\<lparr>hook_id = 2, hook_user = 7, event = ''workflowlevel1.deleted'',
        target = ''http://example.org/b''\<rparr>]"
    by (simp add: sample_hooks_def)
  from find_and_fire_hook_raises
         [of sample_events post_to_target sample_hooks "''workflowlevel1.deleted''" "5::nat" "[]",
          THEN conjunct2, THEN conjunct2, rule_format, OF b]
  show "find_and_fire_hook sample_events post_to_target sample_hooks ''workflowlevel1.deleted''
       (5::nat) [] =
     Inr [\<lparr>http_method = ''POST'', url = ''http://productsservice:8080/webhook/'', payload = 5\<rparr>]"
    by (simp add: f post_to_target_def)
qed

text \<open>
  C6. When a registered event fires, \<open>find_and_fire_hook\<close> delivers the instance once
  for every hook whose event is the event name, in the order of the table, each with
  the target set to the fixed address whatever target the hook has stored; with a
  delivery that posts to the target of the hook object, what is sent is one POST of the
  instance to \<open>http://productsservice:8080/webhook/\<close> per such hook.
\<close>

theorem find_and_fire_hook_delivers:
  assumes "event_name \<in> set (map fst HOOK_EVENTS)"
  shows "find_and_fire_hook HOOK_EVENTS deliver_hook hooks event_name instance w =
           Inr (foldl (\<lambda>w h. deliver_hook
                         (h\<lparr>target := ''http://productsservice:8080/webhook/''\<rparr>) instance w)
                  w (filter (\<lambda>hook. event hook = event_name) hooks))
         \<and> find_and_fire_hook HOOK_EVENTS post_to_target hooks event_name instance sent =
           Inr (sent @ replicate (length (filter (\<lambda>hook. event hook = event_name) hooks))
                  \<lparr>http_method = ''POST'', url = ''http://productsservice:8080/webhook/'',
                   payload = instance\<rparr>)"
  using assms by (simp add: find_and_fire_hook_def fire_hooks_foldl [symmetric] fire_hooks_post)

theorem find_and_fire_hook_delivers_witness:
  "find_and_fire_hook sample_events post_to_target sample_hooks ''workflowlevel1.created''
       (5::nat) [] =
     Inr [\<lparr>http_method = ''POST'', url = ''http://productsservice:8080/webhook/'', payload = 5\<rparr>,
          \<lparr>http_method = ''POST'', url = ''http://productsservice:8080/webhook/'', payload = 5\<rparr>]"
proof -
  have a: "''workflowlevel1.created'' \<in> set (map fst sample_events)"
    by (simp add: sample_events_def)
  have n: "length (filter (\<lambda>hook. event hook = ''workflowlevel1.created'') sample_hooks) = 2"
    by (simp add: sample_hooks_def)
  from find_and_fire_hook_delivers
         [OF a, of post_to_target sample_hooks "5::nat" "[]" "[]", THEN conjunct2] n
  show ?thesis by (simp add: numeral_2_eq_2)
qed

section \<open>Properties of the invitation token validation\<close>

text \<open>
  C4, as amended. \<open>validate_invitation_token\<close> raises the validation error
  \<open>Token is not valid.\<close> when \<open>jwt.decode\<close> raises \<open>DecodeError\<close>, when the token
  decodes to a payload with an email entry and a user with that email exists, and when
  no such user exists and the submitted data has an email entry that differs from the
  token's; it raises \<open>Token is expired.\<close> when \<open>jwt.decode\<close> raises
  \<open>ExpiredSignatureError\<close>; and it returns the token unchanged when the token decodes,
  no user has the token's email and the submitted email equals it.
\<close>

theorem validate_invitation_token_cases:
  fixes jwt_decode users initial_data "value"
  defines "result \<equiv> validate_invitation_token jwt_decode users initial_data value"
  shows
    "(jwt_decode value = Inl DecodeError \<longrightarrow>
        result = Inl (ValidationError (Msg ''Token is not valid.'')))
     \<and> (jwt_decode value = Inl ExpiredSignatureError \<longrightarrow>
        result = Inl (ValidationError (Msg ''Token is expired.'')))
     \<and> (jwt_decode value = Inr decoded \<and> map_of decoded ''email'' = Some token_email \<and>
        email_exists users token_email \<longrightarrow>
        result = Inl (ValidationError (Msg ''Token is not valid.'')))
     \<and> (jwt_decode value = Inr decoded \<and> map_of decoded ''email'' = Some token_email \<and>
        \<not> email_exists users token_email \<and>
        map_of initial_data ''email'' = Some submitted \<and> token_email \<noteq> submitted \<longrightarrow>
        result = Inl (ValidationError (Msg ''Token is not valid.'')))
     \<and> (jwt_decode value = Inr decoded \<and> map_of decoded ''email'' = Some token_email \<and>
        \<not> email_exists users token_email \<and>
        map_of initial_data ''email'' = Some token_email \<longrightarrow>
        result = Inr value)"
  unfolding result_def
  by (simp add: validate_invitation_token_def check_invitation_def getitem_def)

theorem validate_invitation_token_cases_witness:
  "validate_invitation_token sample_jwt_decode [] [(''email'', ''ada@example.org'')] ''signed''
     = Inr ''signed''
   \<and> validate_invitation_token sample_jwt_decode [] [(''email'', ''bob@example.org'')] ''signed''
     = Inl (ValidationError (Msg ''Token is not valid.''))
   \<and> validate_invitation_token sample_jwt_decode [] [(''email'', ''ada@example.org'')] ''old''
     = Inl (ValidationError (Msg ''Token is expired.''))
   \<and> validate_invitation_token sample_jwt_decode [] [(''email'', ''ada@example.org'')] ''x''
     = Inl (ValidationError (Msg ''Token is not valid.''))"
proof (intro conjI)
  have d: "sample_jwt_decode ''signed'' = Inr [(''email'', ''ada@example.org'')]"
    and o: "sample_jwt_decode ''old'' = Inl ExpiredSignatureError"
    and x: "sample_jwt_decode ''x'' = Inl DecodeError"
    by (simp_all add: sample_jwt_decode_def)
  have nobody: "\<not> email_exists [] ''ada@example.org''"
    by (simp add: email_exists_def)
  show "validate_invitation_token sample_jwt_decode [] [(''email'', ''ada@example.org'')] ''signed''
     = Inr ''signed''"
    using validate_invitation_token_cases
         [of sample_jwt_decode "''signed''" "[]" "[(''email'', ''ada@example.org'')]"
             "[(''email'', ''ada@example.org'')]" "''ada@example.org''" "''ada@example.org''"]
      d nobody by simp
  show "validate_invitation_token sample_jwt_decode [] [(''email'', ''bob@example.org'')] ''signed''
     = Inl (ValidationError (Msg ''Token is not valid.''))"
    using validate_invitation_token_cases
         [of sample_jwt_decode "''signed''" "[]" "[(''email'', ''bob@example.org'')]"
             "[(''email'', ''ada@example.org'')]" "''ada@example.org''" "''bob@example.org''"]
      d nobody by simp
  show "validate_invitation_token sample_jwt_decode [] [(''email'', ''ada@example.org'')] ''old''
     = Inl (ValidationError (Msg ''Token is expired.''))"
    using validate_invitation_token_cases
         [of sample_jwt_decode "''old''" "[]" "[(''email'', ''ada@example.org'')]"]
      o by simp
  show "validate_invitation_token sample_jwt_decode [] [(''email'', ''ada@example.org'')] ''x''
     = Inl (ValidationError (Msg ''Token is not valid.''))"
    using validate_invitation_token_cases
         [of sample_jwt_decode "''x''" "[]" "[(''email'', ''ada@example.org'')]"]
      x by simp
qed

text \<open>
  The claim as first stated ends with "and otherwise returns the token value unchanged".
  A token that decodes to an email no user has, submitted without an email entry in the
  data, is neither rejected with a validation error nor returned: the lookup of the
  submitted email raises \<open>KeyError\<close>, which no \<open>except\<close> clause catches.
\<close>

theorem validate_invitation_token_counterexample:
  "sample_jwt_decode ''signed'' = Inr [(''email'', ''ada@example.org'')]
   \<and> \<not> email_exists [] ''ada@example.org''
   \<and> validate_invitation_token sample_jwt_decode [] [(''username'', ''ada'')] ''signed''
       = Inl (KeyError ''email'')"
  by (simp add: validate_invitation_token_def check_invitation_def getitem_def
      sample_jwt_decode_def email_exists_def)

section \<open>Properties of the password reset serializers\<close>

lemma get_user_exists:
  assumes "decode_uid_and_get_user dj users uidb64 = Inr u"
  shows "u \<in> set users"
proof -
  from assms obtain pk where "find (\<lambda>r. CoreUser_pk r = pk) users = Some u"
    by (auto simp: decode_uid_and_get_user_def User_objects_get_def
        split: sum.splits option.splits)
  then show ?thesis by (auto simp: find_Some_iff)
qed

text \<open>An exception of the lookup that the \<open>except\<close> clause does not list passes through.\<close>

lemma check_validate_other_exception:
  "decode_uid_and_get_user dj users (uid attrs) = Inl e \<Longrightarrow> \<not> uid_exception e \<Longrightarrow>
     CoreUserResetPasswordCheckSerializer_validate dj users attrs = Inl e"
  by (simp add: CoreUserResetPasswordCheckSerializer_validate_def)

text \<open>
  C7. Provided the decoding and the lookup raise no exception other than those the
  \<open>except\<close> clause lists (what the Django calls raise on a bad uid),
  \<open>CoreUserResetPasswordCheckSerializer.validate\<close> raises the validation error keyed
  \<open>uid\<close> when the uid does not decode to the primary key of a user of the table,
  raises the validation error keyed \<open>token\<close> when the uid gives a user and the token
  fails the check for that user, and returns the attributes unchanged otherwise.
\<close>

theorem check_validate_cases:
  assumes "\<forall>e. decode_uid_and_get_user dj users (uid attrs) = Inl e \<longrightarrow> uid_exception e"
  shows "((\<nexists>u. decode_uid_and_get_user dj users (uid attrs) = Inr u) \<longrightarrow>
            CoreUserResetPasswordCheckSerializer_validate dj users attrs =
              Inl (ValidationError (Fields [(''uid'', [''Invalid value''])])))
         \<and> (\<forall>u. decode_uid_and_get_user dj users (uid attrs) = Inr u \<longrightarrow>
              u \<in> set users \<and>
              CoreUserResetPasswordCheckSerializer_validate dj users attrs =
                (if check_token dj u (token attrs) then Inr (u, attrs)
                 else Inl (ValidationError (Fields [(''token'', [''Invalid value''])]))))"
proof (cases "decode_uid_and_get_user dj users (uid attrs)")
  case (Inl e)
  with assms have "uid_exception e" by simp
  with Inl show ?thesis
    by (simp add: CoreUserResetPasswordCheckSerializer_validate_def)
next
  case (Inr u)
  then have "u \<in> set users" by (rule get_user_exists)
  with Inr show ?thesis
    by (simp add: CoreUserResetPasswordCheckSerializer_validate_def)
qed

lemma sample_get_1:
  "decode_uid_and_get_user sample_django [sample_user] ''MQ'' = Inr sample_user"
  by (simp add: decode_uid_and_get_user_def User_objects_get_def sample_django_def
      sample_user_def)

lemma sample_get_2:
  "decode_uid_and_get_user sample_django [sample_user] ''Mg'' = Inl DoesNotExist"
  by (simp add: decode_uid_and_get_user_def User_objects_get_def sample_django_def
      sample_user_def)

lemma sample_get_3:
  "decode_uid_and_get_user sample_django [sample_user] ''%%'' = Inl ValueError"
  by (simp add: decode_uid_and_get_user_def sample_django_def)

lemma sample_check: "check_token sample_django u t = (t = ''5x2-4e1a'')"
  by (simp add: sample_django_def)

theorem check_validate_cases_witness:
  "CoreUserResetPasswordCheckSerializer_validate sample_django [sample_user]
       \<lparr>uid = ''Mg'', token = ''5x2-4e1a''\<rparr> =
     Inl (ValidationError (Fields [(''uid'', [''Invalid value''])]))
   \<and> CoreUserResetPasswordCheckSerializer_validate sample_django [sample_user]
       \<lparr>uid = ''%%'', token = ''5x2-4e1a''\<rparr> =
     Inl (ValidationError (Fields [(''uid'', [''Invalid value''])]))
   \<and> CoreUserResetPasswordCheckSerializer_validate sample_django [sample_user]
       \<lparr>uid = ''MQ'', token = ''5x2-0000''\<rparr> =
     Inl (ValidationError (Fields [(''token'', [''Invalid value''])]))
   \<and> CoreUserResetPasswordCheckSerializer_validate sample_django [sample_user]
       \<lparr>uid = ''MQ'', token = ''5x2-4e1a''\<rparr> =
     Inr (sample_user, \<lparr>uid = ''MQ'', token = ''5x2-4e1a''\<rparr>)"
proof (intro conjI)
  have absent: "\<forall>e. decode_uid_and_get_user sample_django [sample_user]
      (uid \<lparr>uid = ''Mg'', token = ''5x2-4e1a''\<rparr>) = Inl e \<longrightarrow> uid_exception e"
    by (simp add: sample_get_2 uid_exception_def)
  from check_validate_cases [OF absent]
  show "CoreUserResetPasswordCheckSerializer_validate sample_django [sample_user]
       \<lparr>uid = ''Mg'', token = ''5x2-4e1a''\<rparr> =
     Inl (ValidationError (Fields [(''uid'', [''Invalid value''])]))"
    by (simp add: sample_get_2)
  have garbled: "\<forall>e. decode_uid_and_get_user sample_django [sample_user]
      (uid \<lparr>uid = ''%%'', token = ''5x2-4e1a''\<rparr>) = Inl e \<longrightarrow> uid_exception e"
    by (simp add: sample_get_3 uid_exception_def)
  from check_validate_cases [OF garbled]
  show "CoreUserResetPasswordCheckSerializer_validate sample_django [sample_user]
       \<lparr>uid = ''%%'', token = ''5x2-4e1a''\<rparr> =
     Inl (ValidationError (Fields [(''uid'', [''Invalid value''])]))"
    by (simp add: sample_get_3)
  have present: "\<forall>e. decode_uid_and_get_user sample_django [sample_user]
      (uid \<lparr>uid = ''MQ'', token = t\<rparr>) = Inl e \<longrightarrow> uid_exception e" for t
    by (simp add: sample_get_1)
  from check_validate_cases [OF present]
  show "CoreUserResetPasswordCheckSerializer_validate sample_django [sample_user]
       \<lparr>uid = ''MQ'', token = ''5x2-0000''\<rparr> =
     Inl (ValidationError (Fields [(''token'', [''Invalid value''])]))"
    by (simp add: sample_get_1 sample_check)
  from check_validate_cases [OF present]
  show "CoreUserResetPasswordCheckSerializer_validate sample_django [sample_user]
       \<lparr>uid = ''MQ'', token = ''5x2-4e1a''\<rparr> =
     Inr (sample_user, \<lparr>uid = ''MQ'', token = ''5x2-4e1a''\<rparr>)"
    by (simp add: sample_get_1 sample_check)
qed

text \<open>
  C8. Under the same proviso, whenever the two new passwords differ
  \<open>CoreUserResetPasswordConfirmSerializer.validate\<close> raises a validation error, the one
  about the two password fields when the inherited check of uid and token passes; and
  the confirmation leaves the user table, so every password, as it was: \<open>save\<close> is not
  reached.
\<close>

theorem confirm_validate_mismatch:
  assumes "new_password1 attrs \<noteq> new_password2 attrs"
    and "\<forall>e. decode_uid_and_get_user dj users (uid attrs) = Inl e \<longrightarrow> uid_exception e"
  shows "(\<exists>d. CoreUserResetPasswordConfirmSerializer_validate dj users attrs =
               Inl (ValidationError d))
         \<and> (\<forall>u. decode_uid_and_get_user dj users (uid attrs) = Inr u \<and>
                  check_token dj u (token attrs) \<longrightarrow>
              CoreUserResetPasswordConfirmSerializer_validate dj users attrs =
                Inl (ValidationError (Msg ''The two password fields didn't match.'')))
         \<and> snd (reset_password_confirm dj make_password attrs users) = users"
proof -
  have v: "\<exists>d. CoreUserResetPasswordConfirmSerializer_validate dj users attrs =
               Inl (ValidationError d)"
  proof (cases "decode_uid_and_get_user dj users (uid attrs)")
    case (Inl e)
    with assms(2) have "uid_exception e" by simp
    with Inl show ?thesis
      by (simp add: CoreUserResetPasswordConfirmSerializer_validate_def
          CoreUserResetPasswordCheckSerializer_validate_def)
  next
    case (Inr u)
    with assms(1) show ?thesis
      by (simp add: CoreUserResetPasswordConfirmSerializer_validate_def
          CoreUserResetPasswordCheckSerializer_validate_def)
  qed
  have m: "\<forall>u. decode_uid_and_get_user dj users (uid attrs) = Inr u \<and>
                  check_token dj u (token attrs) \<longrightarrow>
              CoreUserResetPasswordConfirmSerializer_validate dj users attrs =
                Inl (ValidationError (Msg ''The two password fields didn't match.''))"
    using assms(1)
    by (simp add: CoreUserResetPasswordConfirmSerializer_validate_def
        CoreUserResetPasswordCheckSerializer_validate_def)
  from v obtain d where
    "CoreUserResetPasswordConfirmSerializer_validate dj users attrs = Inl (ValidationError d)"
    by blast
  then have "snd (reset_password_confirm dj make_password attrs users) = users"
    by (simp add: reset_password_confirm_def)
  with v m show ?thesis by blast
qed

theorem confirm_validate_mismatch_witness:
  "CoreUserResetPasswordConfirmSerializer_validate sample_django [sample_user]
       \<lparr>uid = ''MQ'', token = ''5x2-4e1a'', new_password1 = ''correct horse'',
        new_password2 = ''correct house''\<rparr> =
     Inl (ValidationError (Msg ''The two password fields didn't match.''))
   \<and> snd (reset_password_confirm sample_django sample_make_password
       \<lparr>uid = ''MQ'', token = ''5x2-4e1a'', new_password1 = ''correct horse'',
        new_password2 = ''correct house''\<rparr> [sample_user]) = [sample_user]"
proof -
  have differ: "new_password1 \<lparr>uid = ''MQ'', token = ''5x2-4e1a'',
        new_password1 = ''correct horse'', new_password2 = ''correct house''\<rparr>
      \<noteq> new_password2 \<lparr>uid = ''MQ'', token = ''5x2-4e1a'',
        new_password1 = ''correct horse'', new_password2 = ''correct house''\<rparr>"
    by simp
  have present: "\<forall>e. decode_uid_and_get_user sample_django [sample_user]
      (uid \<lparr>uid = ''MQ'', token = ''5x2-4e1a'', new_password1 = ''correct horse'',
        new_password2 = ''correct house''\<rparr>) = Inl e \<longrightarrow> uid_exception e"
    by (simp add: sample_get_1)
  from confirm_validate_mismatch [OF differ present, where make_password = sample_make_password]
  show ?thesis by (simp add: sample_get_1 sample_check)
qed

text \<open>With matching passwords the same request does change the password.\<close>

lemma confirm_match_changes:
  "reset_password_confirm sample_django sample_make_password
       \<lparr>uid = ''MQ'', token = ''5x2-4e1a'', new_password1 = ''correct horse'',
        new_password2 = ''correct horse''\<rparr> [sample_user] =
   (Inr (sample_user\<lparr>CoreUser_password := ''hash-of-correct horse''\<rparr>),
    [sample_user\<lparr>CoreUser_password := ''hash-of-correct horse''\<rparr>])"
proof -
  have long: "validate_password sample_django ''correct horse'' u = Inr ()" for u
    by (simp add: sample_django_def)
  show ?thesis
    by (simp add: reset_password_confirm_def CoreUserResetPasswordConfirmSerializer_validate_def
        CoreUserResetPasswordCheckSerializer_validate_def sample_get_1 sample_check long
        CoreUserResetPasswordConfirmSerializer_save_def Model_save_def sample_make_password_def
        Let_def)
qed

section \<open>Properties of CoreUserWritableSerializer.create\<close>

lemma core_groups_add_tables:
  "coregroups (core_groups_add u g d) = coregroups d"
  "coreusers (core_groups_add u g d) = coreusers d"
  "set (coreuser_core_groups (core_groups_add u g d)) =
     insert (CoreUser_pk u, CoreGroup_id g) (set (coreuser_core_groups d))"
  by (auto simp: core_groups_add_def Let_def)

lemma foldl_core_groups_add:
  "coregroups (foldl (\<lambda>d g. core_groups_add u g d) d gs) = coregroups d"
  "coreusers (foldl (\<lambda>d g. core_groups_add u g d) d gs) = coreusers d"
  "set (coreuser_core_groups (foldl (\<lambda>d g. core_groups_add u g d) d gs)) =
     set (coreuser_core_groups d) \<union> (\<lambda>g. (CoreUser_pk u, CoreGroup_id g)) ` set gs"
  by (induction gs arbitrary: d) (auto simp: core_groups_add_tables)

lemma Model_save_member: "u \<in> set (Model_save u users)"
  by (auto simp: Model_save_def list_ex_iff)

lemma CoreGroup_objects_get_Inr:
  assumes "CoreGroup_objects_get org lvl p db = Inr g"
  shows "g \<in> set (coregroups db) \<and> CoreGroup_organization g = Organization_uuid org \<and>
         CoreGroup_is_org_level g = lvl \<and> CoreGroup_permissions g = p"
proof -
  from assms have "filter (\<lambda>g. CoreGroup_organization g = Organization_uuid org \<and>
                        CoreGroup_is_org_level g = lvl \<and> CoreGroup_permissions g = p)
             (coregroups db) = [g]"
    by (auto simp: CoreGroup_objects_get_def split: list.splits)
  then have "g \<in> set (filter (\<lambda>g. CoreGroup_organization g = Organization_uuid org \<and>
                        CoreGroup_is_org_level g = lvl \<and> CoreGroup_permissions g = p)
             (coregroups db))"
    by simp
  then show ?thesis by simp
qed

lemma bool_of_token_supplied:
  "bool_of_token x = (\<exists>t. x = Some t \<and> t \<noteq> [])"
  by (cases x) (simp_all add: bool_of_token_def)

lemma create_existing:
  assumes "filter (\<lambda>row. Organization_name row = organization data) (organizations db) = [org]"
  shows "create Organization_create make_password P data db =
     (let coreuser = \<lparr>CoreUser_pk = Suc (fold max (map CoreUser_pk (coreusers db)) 0),
                 CoreUser_username = username data,
                 CoreUser_email = email data,
                 CoreUser_password = make_password (password data),
                 CoreUser_is_active = bool_of_token (invitation_token data),
                 CoreUser_organization = Organization_uuid org\<rparr>;
          db3 = db\<lparr>coreusers := Model_save coreuser
                      (coreusers db @ [coreuser\<lparr>CoreUser_password := password data\<rparr>])\<rparr>
      in Inr (coreuser, foldl (\<lambda>d g. core_groups_add coreuser g d) db3
                (case core_groups data of None \<Rightarrow> [] | Some gs \<Rightarrow> gs)))"
  using assms
  by (simp add: create_def Organization_get_or_create_def CoreUser_objects_create_def Let_def)

lemma create_new:
  assumes "filter (\<lambda>row. Organization_name row = organization data) (organizations db) = []"
    and "Organization_create (organization data) db = (org, dbc)"
  shows "create Organization_create make_password P data db =
     (let coreuser = \<lparr>CoreUser_pk = Suc (fold max (map CoreUser_pk (coreusers dbc)) 0),
                 CoreUser_username = username data,
                 CoreUser_email = email data,
                 CoreUser_password = make_password (password data),
                 CoreUser_is_active = True,
                 CoreUser_organization = Organization_uuid org\<rparr>;
          db3 = dbc\<lparr>coreusers := Model_save coreuser
                      (coreusers dbc @ [coreuser\<lparr>CoreUser_password := password data\<rparr>])\<rparr>
      in case CoreGroup_objects_get org True P db3 of
           Inl e \<Rightarrow> Inl e
         | Inr g \<Rightarrow>
             Inr (coreuser, foldl (\<lambda>d g. core_groups_add coreuser g d)
                    (core_groups_add coreuser g db3)
                    (case core_groups data of None \<Rightarrow> [] | Some gs \<Rightarrow> gs)))"
  using assms
  by (simp add: create_def Organization_get_or_create_def CoreUser_objects_create_def Let_def
      split: sum.splits)


text \<open>
  C10. When \<open>create\<close> returns a user, its \<open>is_active\<close> flag is true if and only if
  the named organization was created by this call or an invitation token was supplied
  (a token that is there and not empty: the test is \<open>bool(invitation_token)\<close>),
  whatever \<open>is_active\<close> the data carried; the user is a row of the user table; and
  exactly when the organization is new, the user is added, besides the requested
  groups, to a group of that organization that is org-level and has the org-admin
  permissions.
\<close>

theorem create_active_and_org_admin:
  assumes ok: "create Organization_create make_password PERMISSIONS_ORG_ADMIN data db =
                 Inr (coreuser, db')"
  shows "CoreUser_is_active coreuser =
           (is_new_organization db (organization data) \<or>
            (\<exists>t. invitation_token data = Some t \<and> t \<noteq> []))
         \<and> coreuser \<in> set (coreusers db')
         \<and> (is_new_organization db (organization data) \<longrightarrow>
              (\<exists>g \<in> set (coregroups db').
                 CoreGroup_organization g =
                   Organization_uuid (fst (Organization_create (organization data) db)) \<and>
                 CoreGroup_is_org_level g \<and> CoreGroup_permissions g = PERMISSIONS_ORG_ADMIN \<and>
                 set (coreuser_core_groups db') =
                   insert (CoreUser_pk coreuser, CoreGroup_id g)
                     (set (coreuser_core_groups (snd (Organization_create (organization data) db)))
                      \<union> (\<lambda>g. (CoreUser_pk coreuser, CoreGroup_id g)) `
                          set (case core_groups data of None \<Rightarrow> [] | Some gs \<Rightarrow> gs))))
         \<and> (\<not> is_new_organization db (organization data) \<longrightarrow>
              set (coreuser_core_groups db') =
                set (coreuser_core_groups db)
                \<union> (\<lambda>g. (CoreUser_pk coreuser, CoreGroup_id g)) `
                    set (case core_groups data of None \<Rightarrow> [] | Some gs \<Rightarrow> gs))"
proof (cases "filter (\<lambda>row. Organization_name row = organization data) (organizations db)")
  case Nil
  obtain org db1 where oc: "Organization_create (organization data) db = (org, db1)"
    by (cases "Organization_create (organization data) db")
  define u where "u = \<lparr>CoreUser_pk = Suc (fold max (map CoreUser_pk (coreusers db1)) 0),
                 CoreUser_username = username data,
                 CoreUser_email = email data,
                 CoreUser_password = make_password (password data),
                 CoreUser_is_active = True,
                 CoreUser_organization = Organization_uuid org\<rparr>"
  define db3 where "db3 = db1\<lparr>coreusers := Model_save u
                      (coreusers db1 @ [u\<lparr>CoreUser_password := password data\<rparr>])\<rparr>"
  from ok create_new [where Organization_create = Organization_create and data = data
      and db = db and make_password = make_password and P = PERMISSIONS_ORG_ADMIN, OF Nil oc]
  obtain g where g: "CoreGroup_objects_get org True PERMISSIONS_ORG_ADMIN db3 = Inr g"
    and cu: "coreuser = u"
    and d: "db' = foldl (\<lambda>d g. core_groups_add u g d) (core_groups_add u g db3)
                    (case core_groups data of None \<Rightarrow> [] | Some gs \<Rightarrow> gs)"
    by (auto simp: Let_def u_def db3_def split: sum.splits)
  from CoreGroup_objects_get_Inr [OF g]
  have gp: "g \<in> set (coregroups db3)" "CoreGroup_organization g = Organization_uuid org"
    "CoreGroup_is_org_level g" "CoreGroup_permissions g = PERMISSIONS_ORG_ADMIN"
    by simp_all
  have new: "is_new_organization db (organization data)"
    using Nil by (simp add: is_new_organization_def)
  have act: "CoreUser_is_active coreuser" by (simp add: cu u_def)
  have mem: "coreuser \<in> set (coreusers db')"
    by (simp add: cu d foldl_core_groups_add core_groups_add_tables db3_def Model_save_member)
  have gmem: "g \<in> set (coregroups db')"
    using gp(1) by (simp add: d foldl_core_groups_add core_groups_add_tables)
  have rel: "set (coreuser_core_groups db') =
      insert (CoreUser_pk coreuser, CoreGroup_id g)
        (set (coreuser_core_groups db1)
         \<union> (\<lambda>g. (CoreUser_pk coreuser, CoreGroup_id g)) `
             set (case core_groups data of None \<Rightarrow> [] | Some gs \<Rightarrow> gs))"
    by (simp add: cu d foldl_core_groups_add core_groups_add_tables db3_def)
  from gmem gp(2-) rel
  have "\<exists>g \<in> set (coregroups db').
          CoreGroup_organization g = Organization_uuid org \<and>
          CoreGroup_is_org_level g \<and> CoreGroup_permissions g = PERMISSIONS_ORG_ADMIN \<and>
          set (coreuser_core_groups db') =
            insert (CoreUser_pk coreuser, CoreGroup_id g)
              (set (coreuser_core_groups db1)
               \<union> (\<lambda>g. (CoreUser_pk coreuser, CoreGroup_id g)) `
                   set (case core_groups data of None \<Rightarrow> [] | Some gs \<Rightarrow> gs))"
    by blast
  with new act mem show ?thesis by (simp add: oc)
next
  case (Cons org rest)
  show ?thesis
  proof (cases rest)
    case Nil
    with Cons have one: "filter (\<lambda>row. Organization_name row = organization data)
        (organizations db) = [org]" by simp
    define u where "u = \<lparr>CoreUser_pk = Suc (fold max (map CoreUser_pk (coreusers db)) 0),
                 CoreUser_username = username data,
                 CoreUser_email = email data,
                 CoreUser_password = make_password (password data),
                 CoreUser_is_active = bool_of_token (invitation_token data),
                 CoreUser_organization = Organization_uuid org\<rparr>"
    define db3 where "db3 = db\<lparr>coreusers := Model_save u
                      (coreusers db @ [u\<lparr>CoreUser_password := password data\<rparr>])\<rparr>"
    from ok create_existing [where Organization_create = Organization_create and data = data
        and db = db and make_password = make_password and P = PERMISSIONS_ORG_ADMIN, OF one]
    have cu: "coreuser = u"
      and d: "db' = foldl (\<lambda>d g. core_groups_add u g d) db3
                    (case core_groups data of None \<Rightarrow> [] | Some gs \<Rightarrow> gs)"
      by (auto simp: Let_def u_def db3_def)
    have old: "\<not> is_new_organization db (organization data)"
      using one by (simp add: is_new_organization_def)
    have act: "CoreUser_is_active coreuser = (\<exists>t. invitation_token data = Some t \<and> t \<noteq> [])"
      by (simp add: cu u_def bool_of_token_supplied)
    have mem: "coreuser \<in> set (coreusers db')"
      by (simp add: cu d foldl_core_groups_add db3_def Model_save_member)
    have rel: "set (coreuser_core_groups db') =
        set (coreuser_core_groups db)
        \<union> (\<lambda>g. (CoreUser_pk coreuser, CoreGroup_id g)) `
            set (case core_groups data of None \<Rightarrow> [] | Some gs \<Rightarrow> gs)"
      by (simp add: cu d foldl_core_groups_add db3_def)
    from old act mem rel show ?thesis by simp
  next
    case (Cons org2 rest2)
    with \<open>filter (\<lambda>row. Organization_name row = organization data) (organizations db) = org # rest\<close>
    have "create Organization_create make_password PERMISSIONS_ORG_ADMIN data db =
        Inl MultipleObjectsReturned"
      by (simp add: create_def Organization_get_or_create_def)
    with ok show ?thesis by simp
  qed
qed

lemma sample_create_new:
  "create sample_Organization_create sample_make_password 15
       (sample_data\<lparr>organization := ''Initech''\<rparr>) sample_database =
     Inr (\<lparr>CoreUser_pk = 2, CoreUser_username = ''bob'', CoreUser_email = ''bob@example.org'',
            CoreUser_password = ''hash-of-correct horse'', CoreUser_is_active = True,
            CoreUser_organization = 4\<rparr>,
          sample_database
            \<lparr>organizations := organizations sample_database @
               [\<lparr>Organization_uuid = 4, Organization_name = ''Initech''\<rparr>],
             coregroups := coregroups sample_database @
               [\<lparr>CoreGroup_id = 3, CoreGroup_name = ''Admins'', CoreGroup_organization = 4,
                  CoreGroup_is_org_level = True, CoreGroup_permissions = 15\<rparr>,
                \<lparr>CoreGroup_id = 4, CoreGroup_name = ''Users'', CoreGroup_organization = 4,
                  CoreGroup_is_org_level = True, CoreGroup_permissions = 4\<rparr>],
             coreusers := coreusers sample_database @
               [\<lparr>CoreUser_pk = 2, CoreUser_username = ''bob'',
                  CoreUser_email = ''bob@example.org'',
                  CoreUser_password = ''hash-of-correct horse'', CoreUser_is_active = True,
                  CoreUser_organization = 4\<rparr>],
             coreuser_core_groups := [(1, 1), (2, 3)]\<rparr>)"
  by code_simp

lemma sample_create_existing:
  "create sample_Organization_create sample_make_password 15 sample_data sample_database =
     Inr (\<lparr>CoreUser_pk = 2, CoreUser_username = ''bob'', CoreUser_email = ''bob@example.org'',
            CoreUser_password = ''hash-of-correct horse'', CoreUser_is_active = False,
            CoreUser_organization = 3\<rparr>,
          sample_database
            \<lparr>coreusers := coreusers sample_database @
               [\<lparr>CoreUser_pk = 2, CoreUser_username = ''bob'',
                  CoreUser_email = ''bob@example.org'',
                  CoreUser_password = ''hash-of-correct horse'', CoreUser_is_active = False,
                  CoreUser_organization = 3\<rparr>]\<rparr>)"
  by code_simp


lemma sample_create_invited:
  "create sample_Organization_create sample_make_password 15
       (sample_data\<lparr>invitation_token := Some ''signed''\<rparr>) sample_database =
     Inr (\<lparr>CoreUser_pk = 2, CoreUser_username = ''bob'', CoreUser_email = ''bob@example.org'',
            CoreUser_password = ''hash-of-correct horse'', CoreUser_is_active = True,
            CoreUser_organization = 3\<rparr>,
          sample_database
            \<lparr>coreusers := coreusers sample_database @
               [\<lparr>CoreUser_pk = 2, CoreUser_username = ''bob'',
                  CoreUser_email = ''bob@example.org'',
                  CoreUser_password = ''hash-of-correct horse'', CoreUser_is_active = True,
                  CoreUser_organization = 3\<rparr>]\<rparr>)"
  by code_simp

theorem create_active_and_org_admin_witness:
  "(\<exists>u d. create sample_Organization_create sample_make_password 15 sample_data
             sample_database = Inr (u, d) \<and>
          \<not> CoreUser_is_active u \<and> u \<in> set (coreusers d) \<and>
          set (coreuser_core_groups d) = set (coreuser_core_groups sample_database))
   \<and> (\<exists>u d. create sample_Organization_create sample_make_password 15
             (sample_data\<lparr>invitation_token := Some ''signed''\<rparr>) sample_database =
             Inr (u, d) \<and>
          CoreUser_is_active u \<and> u \<in> set (coreusers d) \<and>
          set (coreuser_core_groups d) = set (coreuser_core_groups sample_database))
   \<and> (\<exists>u d. create sample_Organization_create sample_make_password 15
             (sample_data\<lparr>organization := ''Initech''\<rparr>) sample_database = Inr (u, d) \<and>
          CoreUser_is_active u \<and> u \<in> set (coreusers d) \<and>
          (\<exists>g \<in> set (coregroups d). CoreGroup_is_org_level g \<and> CoreGroup_permissions g = 15 \<and>
             (CoreUser_pk u, CoreGroup_id g) \<in> set (coreuser_core_groups d)))"
proof (intro conjI)
  obtain u d where ok: "create sample_Organization_create sample_make_password 15 sample_data
      sample_database = Inr (u, d)"
    by (rule that, rule sample_create_existing)
  have none: "invitation_token sample_data = None" "core_groups sample_data = None"
    and old: "\<not> is_new_organization sample_database (organization sample_data)"
    by (simp_all add: sample_data_def sample_database_def is_new_organization_def)
  from create_active_and_org_admin [OF ok] none old
  have "\<not> CoreUser_is_active u \<and> u \<in> set (coreusers d) \<and>
      set (coreuser_core_groups d) = set (coreuser_core_groups sample_database)"
    by simp
  with ok show "\<exists>u d. create sample_Organization_create sample_make_password 15 sample_data
             sample_database = Inr (u, d) \<and>
          \<not> CoreUser_is_active u \<and> u \<in> set (coreusers d) \<and>
          set (coreuser_core_groups d) = set (coreuser_core_groups sample_database)"
    by blast
next
  obtain u d where ok: "create sample_Organization_create sample_make_password 15
      (sample_data\<lparr>invitation_token := Some ''signed''\<rparr>) sample_database = Inr (u, d)"
    by (rule that, rule sample_create_invited)
  have some: "invitation_token (sample_data\<lparr>invitation_token := Some ''signed''\<rparr>) =
        Some ''signed''"
      "core_groups (sample_data\<lparr>invitation_token := Some ''signed''\<rparr>) = None"
    and old: "\<not> is_new_organization sample_database
        (organization (sample_data\<lparr>invitation_token := Some ''signed''\<rparr>))"
    by (simp_all add: sample_data_def sample_database_def is_new_organization_def)
  from create_active_and_org_admin [OF ok] some old
  have "CoreUser_is_active u \<and> u \<in> set (coreusers d) \<and>
      set (coreuser_core_groups d) = set (coreuser_core_groups sample_database)"
    by simp
  with ok show "\<exists>u d. create sample_Organization_create sample_make_password 15
             (sample_data\<lparr>invitation_token := Some ''signed''\<rparr>) sample_database =
             Inr (u, d) \<and>
          CoreUser_is_active u \<and> u \<in> set (coreusers d) \<and>
          set (coreuser_core_groups d) = set (coreuser_core_groups sample_database)"
    by blast
next
  obtain u d where ok: "create sample_Organization_create sample_make_password 15
      (sample_data\<lparr>organization := ''Initech''\<rparr>) sample_database = Inr (u, d)"
    by (rule that, rule sample_create_new)
  have new: "is_new_organization sample_database
        (organization (sample_data\<lparr>organization := ''Initech''\<rparr>))"
    by (simp add: sample_data_def sample_database_def is_new_organization_def)
  from create_active_and_org_admin [OF ok] new
  have "CoreUser_is_active u \<and> u \<in> set (coreusers d) \<and>
      (\<exists>g \<in> set (coregroups d). CoreGroup_is_org_level g \<and> CoreGroup_permissions g = 15 \<and>
             (CoreUser_pk u, CoreGroup_id g) \<in> set (coreuser_core_groups d))"
    by auto
  with ok show "\<exists>u d. create sample_Organization_create sample_make_password 15
             (sample_data\<lparr>organization := ''Initech''\<rparr>) sample_database = Inr (u, d) \<and>
          CoreUser_is_active u \<and> u \<in> set (coreusers d) \<and>
          (\<exists>g \<in> set (coregroups d). CoreGroup_is_org_level g \<and> CoreGroup_permissions g = 15 \<and>
             (CoreUser_pk u, CoreGroup_id g) \<in> set (coreuser_core_groups d))"
    by blast
qed

end
